theory Spec2Isabelle
  imports Complex_Main "HOL-Library.Sublist"
begin

section \<open>The job-listing service: search, filtering, pagination and detail lookup\<close>

text \<open>
  The repository holds two versions of \<^verbatim>\<open>JobsService.js\<close>:
  \<^item> \<^verbatim>\<open>src/services/JobsService.js\<close> reads \<^verbatim>\<open>data/jobs.json\<close>, matches the query against
    \<^verbatim>\<open>job.company\<close> (a string) and always resolves a search;
  \<^item> the version held in \<^verbatim>\<open>src/migrations/005_add_companies_foreign_key.sql\<close> (lines 687-844)
    reads \<^verbatim>\<open>data/job-summaries.json\<close>, matches against \<^verbatim>\<open>job.company.name\<close> (an object) and
    rejects an empty result and a page beyond the last one.
  Both are embedded. The constants of the first keep the source's names; those of the second
  carry the suffix \<open>_obj\<close> (company as an object, rejections with an object body).

  JavaScript numbers are modelled as mathematical integers (\<open>int\<close>) where the values are
  integers (\<^verbatim>\<open>page\<close>, \<^verbatim>\<open>limit\<close>, indices), that is, inside the range in which doubles are
  exact; the one place where the source can leave the integers, \<^verbatim>\<open>Math.ceil(total / limit)\<close>
  with \<^verbatim>\<open>limit = 0\<close>, is modelled by \<open>jsnum\<close>. Strings are \<open>char list\<close>s. Console output is
  not part of the model. The outer \<^verbatim>\<open>catch\<close> of each function answers an exception with a
  rejection (status 405); on records whose fields are strings nothing in the body throws, so
  the model has no such branch.
\<close>

subsection \<open>Data\<close>

datatype job_type = FullTime | PartTime | Contract | Internship

datatype remote_option = OnSite | Hybrid | Remote

record company =
  company_id :: string
  name :: string
  logo :: "string option"
  verified :: bool

text \<open>
  A job summary. The type of the \<^verbatim>\<open>company\<close> field is a parameter: a \<open>string\<close> in
  \<^verbatim>\<open>data/jobs.json\<close>, a \<open>company\<close> in \<^verbatim>\<open>data/job-summaries.json\<close>. The functions below are
  typed over the record scheme, so that a JSON object with further fields is covered.
\<close>

record 'c job =
  job_id :: string
  title :: string
  company :: 'c
  location :: string
  jobType :: job_type
  remoteOption :: remote_option
  postedAt :: string

text \<open>
  A job detail. The service reads its \<^verbatim>\<open>id\<close> only; every other field of the JSON object
  lives in the extension part of the record scheme.
\<close>

record job_detail =
  detail_id :: string

datatype jsnum = Fin int | Infinity | NaN

record pagination =
  total :: int
  page :: int
  limit :: int
  totalPages :: jsnum

record 'j search_payload =
  jobs :: "'j list"
  pagination :: pagination

subsection \<open>The data files\<close>

text \<open>
  What \<^verbatim>\<open>JSON.parse(fs.readFileSync(path, 'utf8'))\<close> followed by reading the list property
  can give: an exception (file missing, malformed, or not an object), an object without the
  property, or an object with the list.
\<close>

datatype 'a json_file = Unreadable | Parsed "'a list option"

record ('s, 'o, 'd) data_dir =
  jobs_json :: "'s json_file"
  job_summaries_json :: "'o json_file"
  job_details_json :: "'d json_file"

text \<open>
  The inner \<^verbatim>\<open>try { ... = data.xs || [] } catch (error) { ... = [] }\<close> of both functions.
\<close>

definition load :: "'a json_file \<Rightarrow> 'a list" where
  "load f = (case f of Unreadable \<Rightarrow> [] | Parsed None \<Rightarrow> [] | Parsed (Some xs) \<Rightarrow> xs)"

subsection \<open>Responses\<close>

text \<open>
  The error passed to \<^verbatim>\<open>rejectResponse\<close>: a message string, or an object with a message and,
  in \<^verbatim>\<open>getJobDetails\<close>, a code.
\<close>

datatype error_body = Str string | Obj string "int option"

text \<open>
  Modelled from the spec: \<^verbatim>\<open>Service.rejectResponse(error, code)\<close> and
  \<^verbatim>\<open>Service.successResponse(payload)\<close> of \<^verbatim>\<open>services/Service.js\<close>, which is not among the
  sources. The spec (section 6) has a success carry the payload and a failure carry an error
  with a status; the two calls are kept as constructors that record their arguments.
\<close>

datatype ('p) response = rejectResponse error_body int | successResponse 'p

text \<open>The promise that each function returns is settled by \<^verbatim>\<open>resolve\<close> or by \<^verbatim>\<open>reject\<close>.\<close>

datatype 'r promise = Resolve 'r | Reject 'r

subsection \<open>Strings\<close>

text \<open>
  \<^verbatim>\<open>String.prototype.toLowerCase\<close>, on the ASCII letters; every other character is kept.
  Only the runs on the sample data depend on which characters are mapped.
\<close>

definition toLowerCase_char :: "char \<Rightarrow> char" where
  "toLowerCase_char c =
     (case map_of (zip ''ABCDEFGHIJKLMNOPQRSTUVWXYZ'' ''abcdefghijklmnopqrstuvwxyz'') c of
        None \<Rightarrow> c
      | Some l \<Rightarrow> l)"

definition toLowerCase :: "string \<Rightarrow> string" where
  "toLowerCase s = map toLowerCase_char s"

text \<open>\<^verbatim>\<open>s.includes(t)\<close>: \<open>t\<close> occurs in \<open>s\<close> at some position.\<close>

fun includes_str :: "string \<Rightarrow> string \<Rightarrow> bool" where
  "includes_str [] t = (t = [])"
| "includes_str (c # cs) t = (prefix t (c # cs) \<or> includes_str cs t)"

subsection \<open>Arrays and numbers\<close>

text \<open>
  \<^verbatim>\<open>Array.prototype.slice(start, end)\<close> for integer arguments: a negative index counts from
  the end, both indices are clamped to the array, and an end before the start gives \<open>[]\<close>.
\<close>

definition slice :: "'a list \<Rightarrow> int \<Rightarrow> int \<Rightarrow> 'a list" where
  "slice xs start end' =
     (let len = int (length xs);
          k = (if start < 0 then max (len + start) 0 else min start len);
          final = (if end' < 0 then max (len + end') 0 else min end' len)
      in take (nat (final - k)) (drop (nat k) xs))"

text \<open>
  \<^verbatim>\<open>Math.ceil(total / limit)\<close> for an array length \<open>n\<close> (the total) and an integer \<open>l\<close> (the limit):
  \<^verbatim>\<open>0 / 0\<close> is \<^verbatim>\<open>NaN\<close> and \<^verbatim>\<open>total / 0\<close> is \<^verbatim>\<open>Infinity\<close> for \<open>total > 0\<close>. (For \<open>n = 0\<close> and
  \<open>l < 0\<close> the source has \<^verbatim>\<open>-0\<close>, which compares and serialises as \<open>0\<close>.)
\<close>

definition Math_ceil_div :: "nat \<Rightarrow> int \<Rightarrow> jsnum" where
  "Math_ceil_div n l =
     (if l = 0 then (if n = 0 then NaN else Infinity)
      else Fin \<lceil>real n / real_of_int l\<rceil>)"

text \<open>The comparison \<^verbatim>\<open>a < b\<close> of two numbers; any comparison with \<^verbatim>\<open>NaN\<close> is false.\<close>

fun js_less :: "jsnum \<Rightarrow> jsnum \<Rightarrow> bool" where
  "js_less (Fin a) (Fin b) = (a < b)"
| "js_less (Fin a) Infinity = True"
| "js_less _ _ = False"

text \<open>A default parameter value (\<^verbatim>\<open>page = 1\<close>, \<^verbatim>\<open>limit = 10\<close>) applies to an omitted argument.\<close>

definition default :: "'a \<Rightarrow> 'a option \<Rightarrow> 'a" where
  "default v arg = (case arg of None \<Rightarrow> v | Some x \<Rightarrow> x)"

subsection \<open>The service in \<^verbatim>\<open>src/services/JobsService.js\<close>\<close>

text \<open>
  \<^verbatim>\<open>getJobDetails\<close> (lines 13-53). \<^verbatim>\<open>find\<close> gives the first element with the id; a record
  is an object, hence truthy, so \<^verbatim>\<open>!jobDetail\<close> holds exactly when nothing was found. The
  directory is returned as the function leaves it.
\<close>

definition getJobDetails ::
  "('s, 'o, 'z job_detail_scheme) data_dir \<Rightarrow> string
   \<Rightarrow> 'z job_detail_scheme response promise \<times> ('s, 'o, 'z job_detail_scheme) data_dir" where
  "getJobDetails d jobId =
     (let jobDetails = load (job_details_json d);
          jobDetail = find (\<lambda>job. detail_id job = jobId) jobDetails
      in case jobDetail of
           None \<Rightarrow> (Reject (rejectResponse (Str ''Job not found'') 404), d)
         | Some found \<Rightarrow> (Resolve (successResponse found), d))"

text \<open>
  The two filter steps of \<^verbatim>\<open>searchAndListJobs\<close> (lines 84-91 and 93-98). \<^verbatim>\<open>if (q)\<close> is false
  for an omitted (or null) argument and for the empty string.
\<close>

definition q_filter ::
  "string option \<Rightarrow> (string, 'm) job_scheme list \<Rightarrow> (string, 'm) job_scheme list" where
  "q_filter q filteredJobs =
     (case q of
        None \<Rightarrow> filteredJobs
      | Some s \<Rightarrow>
          if s = [] then filteredJobs
          else (let query = toLowerCase s
                in filter (\<lambda>job. includes_str (toLowerCase (title job)) query \<or>
                                   includes_str (toLowerCase (company job)) query \<or>
                                   includes_str (toLowerCase (location job)) query)
                     filteredJobs))"

definition location_filter ::
  "string option \<Rightarrow> ('c, 'm) job_scheme list \<Rightarrow> ('c, 'm) job_scheme list" where
  "location_filter loc filteredJobs =
     (case loc of
        None \<Rightarrow> filteredJobs
      | Some s \<Rightarrow>
          if s = [] then filteredJobs
          else (let locationQuery = toLowerCase s
                in filter (\<lambda>job. includes_str (toLowerCase (location job)) locationQuery)
                     filteredJobs))"

text \<open>The value of \<^verbatim>\<open>filteredJobs\<close> at line 100: the query filter, then the location filter.\<close>

definition applyFilters ::
  "string option \<Rightarrow> string option \<Rightarrow> (string, 'm) job_scheme list
   \<Rightarrow> (string, 'm) job_scheme list" where
  "applyFilters q loc allJobs = location_filter loc (q_filter q allJobs)"

text \<open>\<^verbatim>\<open>searchAndListJobs\<close> (lines 65-128): no rejection besides the outer \<^verbatim>\<open>catch\<close>.\<close>

definition searchAndListJobs ::
  "((string, 'm) job_scheme, 'o, 'd) data_dir
   \<Rightarrow> string option \<Rightarrow> string option \<Rightarrow> int option \<Rightarrow> int option
   \<Rightarrow> (string, 'm) job_scheme search_payload response promise
      \<times> ((string, 'm) job_scheme, 'o, 'd) data_dir" where
  "searchAndListJobs d q loc pageArg limitArg =
     (let page = default 1 pageArg;
          limit = default 10 limitArg;
          allJobs = load (jobs_json d);
          filteredJobs = applyFilters q loc allJobs;
          total = length filteredJobs;
          totalPages = Math_ceil_div total limit;
          startIndex = (page - 1) * limit;
          endIndex = startIndex + limit;
          paginatedJobs = slice filteredJobs startIndex endIndex;
          pagination = \<lparr>total = int total, page = page, limit = limit,
                          totalPages = totalPages\<rparr>
      in (Resolve (successResponse \<lparr>jobs = paginatedJobs, pagination = pagination\<rparr>), d))"

subsection \<open>The service held in \<^verbatim>\<open>src/migrations/005_add_companies_foreign_key.sql\<close>\<close>

text \<open>\<^verbatim>\<open>getJobDetails\<close> (lines 696-739): the rejection carries an object.\<close>

definition getJobDetails_obj ::
  "('s, 'o, 'z job_detail_scheme) data_dir \<Rightarrow> string
   \<Rightarrow> 'z job_detail_scheme response promise \<times> ('s, 'o, 'z job_detail_scheme) data_dir" where
  "getJobDetails_obj d jobId =
     (let jobDetails = load (job_details_json d);
          jobDetail = find (\<lambda>job. detail_id job = jobId) jobDetails
      in case jobDetail of
           None \<Rightarrow> (Reject (rejectResponse (Obj ''Job not found'' (Some 404)) 404), d)
         | Some found \<Rightarrow> (Resolve (successResponse found), d))"

text \<open>The query filter (lines 775-782) reads \<^verbatim>\<open>job.company.name\<close>.\<close>

definition q_filter_obj ::
  "string option \<Rightarrow> (company, 'm) job_scheme list \<Rightarrow> (company, 'm) job_scheme list" where
  "q_filter_obj q filteredJobs =
     (case q of
        None \<Rightarrow> filteredJobs
      | Some s \<Rightarrow>
          if s = [] then filteredJobs
          else (let query = toLowerCase s
                in filter (\<lambda>job. includes_str (toLowerCase (title job)) query \<or>
                                   includes_str (toLowerCase (name (company job))) query \<or>
                                   includes_str (toLowerCase (location job)) query)
                     filteredJobs))"

text \<open>The location filter (lines 786-791) is the one above, \<open>location_filter\<close>.\<close>

definition applyFilters_obj ::
  "string option \<Rightarrow> string option \<Rightarrow> (company, 'm) job_scheme list
   \<Rightarrow> (company, 'm) job_scheme list" where
  "applyFilters_obj q loc allJobs = location_filter loc (q_filter_obj q allJobs)"

text \<open>
  \<^verbatim>\<open>searchAndListJobs\<close> (lines 753-839): the same computation, then the two rejections
  (lines 812-825) before the success.
\<close>

definition searchAndListJobs_obj ::
  "('s, (company, 'm) job_scheme, 'd) data_dir
   \<Rightarrow> string option \<Rightarrow> string option \<Rightarrow> int option \<Rightarrow> int option
   \<Rightarrow> (company, 'm) job_scheme search_payload response promise
      \<times> ('s, (company, 'm) job_scheme, 'd) data_dir" where
  "searchAndListJobs_obj d q loc pageArg limitArg =
     (let page = default 1 pageArg;
          limit = default 10 limitArg;
          allJobs = load (job_summaries_json d);
          filteredJobs = applyFilters_obj q loc allJobs;
          total = length filteredJobs;
          totalPages = Math_ceil_div total limit;
          startIndex = (page - 1) * limit;
          endIndex = startIndex + limit;
          paginatedJobs = slice filteredJobs startIndex endIndex;
          pagination = \<lparr>total = int total, page = page, limit = limit,
                          totalPages = totalPages\<rparr>
      in if length filteredJobs = 0
         then (Reject (rejectResponse (Obj ''No jobs found'' None) 404), d)
         else if js_less totalPages (Fin page) \<and> js_less (Fin 0) totalPages
         then (Reject (rejectResponse (Obj ''Page number exceeds available pages'' None) 404), d)
         else (Resolve (successResponse \<lparr>jobs = paginatedJobs, pagination = pagination\<rparr>), d))"

subsection \<open>Notions used in the statements\<close>

text \<open>
  The comparison \<^verbatim>\<open>a <= b\<close> of two numbers, in which the claims state that a page is not
  beyond the last one; the source itself only uses \<^verbatim>\<open>>\<close>.
\<close>

fun js_le :: "jsnum \<Rightarrow> jsnum \<Rightarrow> bool" where
  "js_le (Fin a) (Fin b) = (a \<le> b)"
| "js_le (Fin a) Infinity = True"
| "js_le Infinity Infinity = True"
| "js_le _ _ = False"

text \<open>The page of jobs that a search delivered; a rejected search delivers none.\<close>

fun jobs_of :: "'j search_payload response promise \<Rightarrow> 'j list" where
  "jobs_of (Resolve (successResponse P)) = jobs P"
| "jobs_of _ = []"

subsection \<open>Sample data\<close>

text \<open>
  Small collections on which the theorems below are instantiated. \<open>mk_job\<close> fills the fields
  that the service does not read; \<open>sample_jobs\<close> and \<open>ten_jobs\<close> take the shape of the
  company field as a parameter, so that both data files can hold the same jobs.
\<close>

definition mk_job :: "string \<Rightarrow> string \<Rightarrow> 'c \<Rightarrow> string \<Rightarrow> 'c job" where
  "mk_job i t c l =
     \<lparr>job_id = i, title = t, company = c, location = l, jobType = FullTime,
      remoteOption = Hybrid, postedAt = ''2025-01-15T00:00:00.000Z''\<rparr>"

definition company_named :: "string \<Rightarrow> company" where
  "company_named n = \<lparr>company_id = ''comp-001'', name = n, logo = None, verified = True\<rparr>"

definition sample_jobs :: "(string \<Rightarrow> 'c) \<Rightarrow> 'c job list" where
  "sample_jobs mk =
     [mk_job ''a'' ''Senior Engineer'' (mk ''TechCorp'') ''Berlin'',
      mk_job ''b'' ''Designer'' (mk ''Bergwerk'') ''Austin'',
      mk_job ''c'' ''Accountant'' (mk ''StartupHub'') ''Munich'']"

definition ten_jobs :: "(string \<Rightarrow> 'c) \<Rightarrow> 'c job list" where
  "ten_jobs mk =
     map (\<lambda>i. mk_job i ''Developer'' (mk ''TechCorp'') ''Remote'')
       [''j0'', ''j1'', ''j2'', ''j3'', ''j4'', ''j5'', ''j6'', ''j7'', ''j8'', ''j9'']"

definition sample_details :: "job_detail list" where
  "sample_details = [\<lparr>detail_id = ''a''\<rparr>, \<lparr>detail_id = ''b''\<rparr>]"

definition sample_dir :: "(string job, company job, job_detail) data_dir" where
  "sample_dir =
     \<lparr>jobs_json = Parsed (Some (sample_jobs (\<lambda>n. n))),
      job_summaries_json = Parsed (Some (sample_jobs company_named)),
      job_details_json = Parsed (Some sample_details)\<rparr>"

definition ten_dir :: "(string job, company job, job_detail) data_dir" where
  "ten_dir =
     \<lparr>jobs_json = Parsed (Some (ten_jobs (\<lambda>n. n))),
      job_summaries_json = Parsed (Some (ten_jobs company_named)),
      job_details_json = Parsed (Some sample_details)\<rparr>"

text \<open>The directory after a failed load of every file.\<close>

definition degraded_dir :: "(string job, company job, job_detail) data_dir" where
  "degraded_dir =
     \<lparr>jobs_json = Unreadable, job_summaries_json = Unreadable, job_details_json = Unreadable\<rparr>"

section \<open>Auxiliary facts\<close>

subsection \<open>Strings, filters, slices and page counts\<close>

lemma includes_str_iff_sublist: "includes_str s t \<longleftrightarrow> sublist t s"
  by (induction s) (simp_all add: sublist_Cons_right)

lemma q_filter_Some:
  "s \<noteq> [] \<Longrightarrow> q_filter (Some s) js =
     filter (\<lambda>j. sublist (toLowerCase s) (toLowerCase (title j)) \<or>
                 sublist (toLowerCase s) (toLowerCase (company j)) \<or>
                 sublist (toLowerCase s) (toLowerCase (location j))) js"
  by (simp add: q_filter_def includes_str_iff_sublist Let_def)

lemma q_filter_obj_Some:
  "s \<noteq> [] \<Longrightarrow> q_filter_obj (Some s) js =
     filter (\<lambda>j. sublist (toLowerCase s) (toLowerCase (title j)) \<or>
                 sublist (toLowerCase s) (toLowerCase (name (company j))) \<or>
                 sublist (toLowerCase s) (toLowerCase (location j))) js"
  by (simp add: q_filter_obj_def includes_str_iff_sublist Let_def)

lemma location_filter_Some:
  "l \<noteq> [] \<Longrightarrow> location_filter (Some l) js =
     filter (\<lambda>j. sublist (toLowerCase l) (toLowerCase (location j))) js"
  by (simp add: location_filter_def includes_str_iff_sublist Let_def)

lemma q_filter_absent: "q_filter None js = js" "q_filter (Some []) js = js"
  by (simp_all add: q_filter_def)

lemma q_filter_obj_absent: "q_filter_obj None js = js" "q_filter_obj (Some []) js = js"
  by (simp_all add: q_filter_obj_def)

lemma location_filter_absent: "location_filter None js = js" "location_filter (Some []) js = js"
  by (simp_all add: location_filter_def)

lemma filters_commute:
  "location_filter loc (q_filter q js) = q_filter q (location_filter loc js)"
  by (simp add: location_filter_def q_filter_def Let_def conj_commute
           split: option.splits)

lemma filters_commute_obj:
  "location_filter loc (q_filter_obj q js) = q_filter_obj q (location_filter loc js)"
  by (simp add: location_filter_def q_filter_obj_def Let_def conj_commute
           split: option.splits)

lemma slice_window:
  "0 \<le> s \<Longrightarrow> 0 \<le> l \<Longrightarrow> slice xs s (s + l) = take (nat l) (drop (nat s) xs)"
  by (auto simp: slice_def Let_def min_def)

lemma slice_page_window:
  assumes "1 \<le> pg" "1 \<le> l"
  shows "slice xs ((pg - 1) * l) ((pg - 1) * l + l) = take (nat l) (drop (nat ((pg - 1) * l)) xs)"
  using assms by (intro slice_window) simp_all

lemma Math_ceil_div_Fin: "l \<noteq> 0 \<Longrightarrow> Math_ceil_div n l = Fin \<lceil>real n / real_of_int l\<rceil>"
  by (simp add: Math_ceil_div_def)

lemma ceil_le_iff:
  assumes "1 \<le> l"
  shows "pg \<le> \<lceil>real n / real_of_int l\<rceil> \<longleftrightarrow> (pg - 1) * l < int n"
proof -
  have l: "0 < real_of_int l" using assms by simp
  have "pg \<le> \<lceil>real n / real_of_int l\<rceil> \<longleftrightarrow> pg - 1 < \<lceil>real n / real_of_int l\<rceil>"
    by linarith
  also have "\<dots> \<longleftrightarrow> real_of_int (pg - 1) < real n / real_of_int l"
    by (rule less_ceiling_iff)
  also have "\<dots> \<longleftrightarrow> real_of_int (pg - 1) * real_of_int l < real n"
    using l by (simp add: pos_less_divide_eq)
  also have "\<dots> \<longleftrightarrow> real_of_int ((pg - 1) * l) < real_of_int (int n)"
    by simp
  also have "\<dots> \<longleftrightarrow> (pg - 1) * l < int n"
    by (rule of_int_less_iff)
  finally show ?thesis .
qed

lemma ceil_pos_iff:
  assumes "1 \<le> l"
  shows "0 < \<lceil>real n / real_of_int l\<rceil> \<longleftrightarrow> 0 < n"
  using ceil_le_iff[OF assms, of 1 n] by simp

lemma ceil_mult_ge:
  assumes "1 \<le> l"
  shows "int n \<le> \<lceil>real n / real_of_int l\<rceil> * l"
proof -
  have "\<not> (\<lceil>real n / real_of_int l\<rceil> + 1 \<le> \<lceil>real n / real_of_int l\<rceil>)" by simp
  then have "\<not> ((\<lceil>real n / real_of_int l\<rceil> + 1 - 1) * l < int n)"
    unfolding ceil_le_iff[OF assms, symmetric] .
  then show ?thesis by simp
qed

lemma ceil_nonneg:
  assumes "1 \<le> l"
  shows "0 \<le> \<lceil>real n / real_of_int l\<rceil>"
  using ceil_le_iff[OF assms, of 0 n] assms
  by (simp add: mult_less_0_iff)

lemma ceil_neg_limit:
  assumes "l < 0"
  shows "\<lceil>real n / real_of_int l\<rceil> \<le> 0"
proof -
  have "real n / real_of_int l \<le> 0"
    using assms by (simp add: divide_nonneg_neg)
  then show ?thesis by (simp add: ceiling_le_iff)
qed

lemma concat_pages_nat:
  "concat (map (\<lambda>k. take l (drop (k * l) xs)) [0..<n]) = take (n * l) xs"
proof (induction n)
  case 0
  show ?case by simp
next
  case (Suc n)
  have "concat (map (\<lambda>k. take l (drop (k * l) xs)) [0..<Suc n])
          = take (n * l) xs @ take l (drop (n * l) xs)"
    using Suc.IH by simp
  also have "\<dots> = take (n * l + l) xs"
    by (simp add: take_add)
  finally show ?case by (simp add: add.commute)
qed

lemma upto_from_1: "[1..int n] = map (\<lambda>k. int k + 1) [0..<n]"
proof (induction n)
  case 0
  show ?case by simp
next
  case (Suc n)
  have "[1..int (Suc n)] = [1..int n] @ [int n + 1]"
    using upto_rec2[of 1 "int (Suc n)"] by simp
  with Suc.IH show ?case by simp
qed

lemma concat_slices:
  assumes "1 \<le> l"
  shows "concat (map (\<lambda>p. slice xs ((p - 1) * l) ((p - 1) * l + l))
                   [1..\<lceil>real (length xs) / real_of_int l\<rceil>]) = xs"
proof -
  let ?T = "\<lceil>real (length xs) / real_of_int l\<rceil>"
  have T0: "0 \<le> ?T" by (rule ceil_nonneg[OF assms])
  have win: "slice xs (int k * l) (int k * l + l) = take (nat l) (drop (k * nat l) xs)" for k
  proof -
    have "slice xs (int k * l) (int k * l + l) = take (nat l) (drop (nat (int k * l)) xs)"
      using assms by (intro slice_window) simp_all
    moreover have "nat (int k * l) = k * nat l"
      using assms by (simp add: nat_mult_distrib)
    ultimately show ?thesis by simp
  qed
  have "[1..?T] = map (\<lambda>k. int k + 1) [0..<nat ?T]"
    using upto_from_1[of "nat ?T"] T0 by simp
  then have "concat (map (\<lambda>p. slice xs ((p - 1) * l) ((p - 1) * l + l)) [1..?T])
          = concat (map (\<lambda>k. take (nat l) (drop (k * nat l) xs)) [0..<nat ?T])"
    by (simp add: o_def win)
  also have "\<dots> = take (nat ?T * nat l) xs"
    by (rule concat_pages_nat)
  also have "\<dots> = xs"
  proof -
    have "int (length xs) \<le> ?T * l" by (rule ceil_mult_ge[OF assms])
    also have "\<dots> = int (nat ?T * nat l)"
      using T0 assms by simp
    finally have "length xs \<le> nat ?T * nat l" by linarith
    then show ?thesis by simp
  qed
  finally show ?thesis .
qed

lemma set_filter_filter:
  "set (filter P (filter Q xs)) = set (filter Q xs) \<inter> set (filter P xs)"
  by auto

lemma find_first:
  "find P xs = Some x \<Longrightarrow> \<exists>pre post. xs = pre @ x # post \<and> P x \<and> (\<forall>y\<in>set pre. \<not> P y)"
proof (induction xs)
  case Nil
  then show ?case by simp
next
  case (Cons a xs)
  show ?case
  proof (cases "P a")
    case True
    with Cons.prems have "a = x" by simp
    with True have "a # xs = [] @ x # xs \<and> P x \<and> (\<forall>y\<in>set []. \<not> P y)" by simp
    then show ?thesis by blast
  next
    case False
    with Cons.prems have "find P xs = Some x" by simp
    from Cons.IH[OF this] obtain pre post
      where "xs = pre @ x # post" "P x" "\<forall>y\<in>set pre. \<not> P y" by blast
    with False have "a # xs = (a # pre) @ x # post \<and> P x \<and> (\<forall>y\<in>set (a # pre). \<not> P y)"
      by simp
    then show ?thesis by blast
  qed
qed

lemma find_distinct:
  assumes "distinct (map f xs)" and "x \<in> set xs"
  shows "find (\<lambda>y. f y = f x) xs = Some x"
  using assms
proof (induction xs)
  case Nil
  then show ?case by simp
next
  case (Cons a xs)
  then show ?case by (cases "a = x") force+
qed

subsection \<open>The two searches, unfolded\<close>

lemma searchAndListJobs_result:
  assumes "pg = default 1 pageArg" and "lmt = default 10 limitArg"
    and "F = applyFilters q loc (load (jobs_json d))"
  shows "searchAndListJobs d q loc pageArg limitArg =
           (Resolve (successResponse
              \<lparr>jobs = slice F ((pg - 1) * lmt) ((pg - 1) * lmt + lmt),
               pagination = \<lparr>total = int (length F), page = pg, limit = lmt,
                               totalPages = Math_ceil_div (length F) lmt\<rparr>\<rparr>), d)"
  using assms by (simp add: searchAndListJobs_def Let_def)

lemma searchAndListJobs_obj_result:
  assumes "pg = default 1 pageArg" and "lmt = default 10 limitArg"
    and "F = applyFilters_obj q loc (load (job_summaries_json d))"
  shows "searchAndListJobs_obj d q loc pageArg limitArg =
           (if F = [] then (Reject (rejectResponse (Obj ''No jobs found'' None) 404), d)
            else if js_less (Math_ceil_div (length F) lmt) (Fin pg)
                    \<and> js_less (Fin 0) (Math_ceil_div (length F) lmt)
            then (Reject (rejectResponse (Obj ''Page number exceeds available pages'' None) 404), d)
            else (Resolve (successResponse
              \<lparr>jobs = slice F ((pg - 1) * lmt) ((pg - 1) * lmt + lmt),
               pagination = \<lparr>total = int (length F), page = pg, limit = lmt,
                               totalPages = Math_ceil_div (length F) lmt\<rparr>\<rparr>), d))"
  using assms by (simp add: searchAndListJobs_obj_def Let_def)

lemma searchAndListJobs_obj_no_jobs:
  assumes "applyFilters_obj q loc (load (job_summaries_json d)) = []"
  shows "fst (searchAndListJobs_obj d q loc pageArg limitArg) =
           Reject (rejectResponse (Obj ''No jobs found'' None) 404)"
  using assms by (simp add: searchAndListJobs_obj_result)

lemma applyFilters_obj_Nil: "applyFilters_obj q loc [] = []"
  by (simp add: applyFilters_obj_def q_filter_obj_def location_filter_def Let_def
        split: option.split)

lemma searchAndListJobs_obj_degraded:
  assumes "load (job_summaries_json d) = []"
  shows "fst (searchAndListJobs_obj d q loc pageArg limitArg) =
           Reject (rejectResponse (Obj ''No jobs found'' None) 404)"
  by (rule searchAndListJobs_obj_no_jobs) (simp add: assms applyFilters_obj_Nil)

lemma searchAndListJobs_obj_page_exceeds:
  assumes "F = applyFilters_obj q loc (load (job_summaries_json d))" and "F \<noteq> []"
    and "js_less (Math_ceil_div (length F) (default 10 limitArg)) (Fin (default 1 pageArg))"
    and "js_less (Fin 0) (Math_ceil_div (length F) (default 10 limitArg))"
  shows "fst (searchAndListJobs_obj d q loc pageArg limitArg) =
           Reject (rejectResponse (Obj ''Page number exceeds available pages'' None) 404)"
  using assms by (simp add: searchAndListJobs_obj_result)

lemma applyFilters_absent:
  "applyFilters None None xs = xs" "applyFilters_obj None None ys = ys"
  by (simp_all add: applyFilters_def applyFilters_obj_def q_filter_def q_filter_obj_def
        location_filter_def)


lemma searchAndListJobs_resolves:
  "\<exists>P. searchAndListJobs d q loc pageArg limitArg = (Resolve (successResponse P), d)"
  by (simp add: searchAndListJobs_def Let_def)

lemma searchAndListJobs_jobs_of:
  assumes "lmt = default 10 limitArg"
    and "F = applyFilters q loc (load (jobs_json d))"
  shows "jobs_of (fst (searchAndListJobs d q loc (Some p) limitArg)) =
           slice F ((p - 1) * lmt) ((p - 1) * lmt + lmt)"
proof -
  have "p = default 1 (Some p)" by (simp add: default_def)
  from searchAndListJobs_result[OF this assms] show ?thesis by simp
qed

lemma searchAndListJobs_obj_in_range:
  assumes "1 \<le> lmt" and "lmt = default 10 limitArg"
    and "G = applyFilters_obj q loc (load (job_summaries_json d))"
    and "p \<le> \<lceil>real (length G) / real_of_int lmt\<rceil>" and "G \<noteq> []"
  shows "fst (searchAndListJobs_obj d q loc (Some p) limitArg) =
           Resolve (successResponse
             \<lparr>jobs = slice G ((p - 1) * lmt) ((p - 1) * lmt + lmt),
              pagination = \<lparr>total = int (length G), page = p, limit = lmt,
                              totalPages = Fin \<lceil>real (length G) / real_of_int lmt\<rceil>\<rparr>\<rparr>)"
proof -
  have lmt0: "lmt \<noteq> 0" using assms(1) by simp
  have "p = default 1 (Some p)" by (simp add: default_def)
  from searchAndListJobs_obj_result[OF this assms(2) assms(3)] assms(4) assms(5)
  show ?thesis by (simp add: Math_ceil_div_Fin[OF lmt0])
qed

lemma upto_nonempty_ceil:
  assumes "1 \<le> lmt" and "p \<in> set [1..\<lceil>real (length G) / real_of_int lmt\<rceil>]"
  shows "G \<noteq> []"
proof
  assume "G = []"
  with assms(2) show False by simp
qed

lemma window_nonempty:
  assumes "1 \<le> lmt" and "1 \<le> pg" and "pg \<le> \<lceil>real (length xs) / real_of_int lmt\<rceil>"
  shows "slice xs ((pg - 1) * lmt) ((pg - 1) * lmt + lmt) \<noteq> []"
proof -
  have "(pg - 1) * lmt < int (length xs)"
    using assms(3) by (simp add: ceil_le_iff[OF assms(1)])
  moreover have "0 \<le> (pg - 1) * lmt" using assms(1,2) by simp
  ultimately have "nat ((pg - 1) * lmt) < length xs" by linarith
  then have "drop (nat ((pg - 1) * lmt)) xs \<noteq> []" by simp
  moreover have "0 < nat lmt" using assms(1) by simp
  ultimately have "take (nat lmt) (drop (nat ((pg - 1) * lmt)) xs) \<noteq> []"
    by (cases "drop (nat ((pg - 1) * lmt)) xs") (auto simp: take_Cons')
  then show ?thesis by (simp add: slice_page_window[OF assms(2) assms(1)])
qed

lemma page_beyond_negative_limit:
  assumes "lmt < 0" and "1 \<le> pg"
  shows "\<not> js_le (Fin pg) (Math_ceil_div n lmt)"
proof -
  have "\<lceil>real n / real_of_int lmt\<rceil> \<le> 0" by (rule ceil_neg_limit[OF assms(1)])
  with assms(2) have "\<not> pg \<le> \<lceil>real n / real_of_int lmt\<rceil>" by linarith
  moreover have "Math_ceil_div n lmt = Fin \<lceil>real n / real_of_int lmt\<rceil>"
    using assms(1) by (intro Math_ceil_div_Fin) simp
  ultimately show ?thesis by simp
qed

lemma page_in_range_window_nonempty:
  assumes "1 \<le> pg" and "lmt \<noteq> 0" and "js_le (Fin pg) (Math_ceil_div (length xs) lmt)"
  shows "slice xs ((pg - 1) * lmt) ((pg - 1) * lmt + lmt) \<noteq> []"
proof (cases "lmt < 0")
  case True
  from page_beyond_negative_limit[OF True assms(1)] assms(3) show ?thesis by blast
next
  case False
  with assms(2) have l: "1 \<le> lmt" by simp
  from assms(3) have "pg \<le> \<lceil>real (length xs) / real_of_int lmt\<rceil>"
    by (simp add: Math_ceil_div_Fin[OF assms(2)])
  with l assms(1) show ?thesis by (intro window_nonempty)
qed

subsection \<open>Runs on the sample data\<close>

lemma length_ten_jobs: "length (ten_jobs mk) = 10"
  by (simp add: ten_jobs_def)

lemma ten_dir_files:
  "load (jobs_json ten_dir) = ten_jobs (\<lambda>n. n)"
  "load (job_summaries_json ten_dir) = ten_jobs company_named"
  by (simp_all add: ten_dir_def load_def)

lemma length_sample_jobs: "length (sample_jobs mk) = 3"
  by (simp add: sample_jobs_def)

lemma sample_dir_files:
  "load (jobs_json sample_dir) = sample_jobs (\<lambda>n. n)"
  "load (job_summaries_json sample_dir) = sample_jobs company_named"
  "load (job_details_json sample_dir) = sample_details"
  by (simp_all add: sample_dir_def load_def)

lemma degraded_dir_files:
  "load (jobs_json degraded_dir) = []"
  "load (job_summaries_json degraded_dir) = []"
  "load (job_details_json degraded_dir) = []"
  by (simp_all add: degraded_dir_def load_def)

lemma Math_ceil_div_samples:
  "Math_ceil_div 10 5 = Fin 2" "Math_ceil_div 0 10 = Fin 0" "Math_ceil_div 3 1 = Fin 3"
  "Math_ceil_div 3 2 = Fin 2"
  by (simp_all add: Math_ceil_div_def)

lemma slice_ten_jobs:
  "slice (ten_jobs mk) 0 5 = take 5 (ten_jobs mk)"
  "slice (ten_jobs mk) 5 10 = drop 5 (ten_jobs mk)"
  "slice (ten_jobs mk) 10 15 = []"
  by (simp_all add: slice_def Let_def length_ten_jobs)

lemma upto_1_2: "[1..(2::int)] = [1, 2]"
  by (simp add: upto_rec1)

section \<open>The claims\<close>

subsection \<open>Empty results\<close>

text \<open>
  Claim C1. A search whose filtered set is empty is to fail with the message
  \<open>No jobs found\<close>, whatever the page, also after a degraded load. The version of the service
  with company objects does so for every page and limit (\<open>searchAndListJobs_obj_no_jobs\<close>,
  \<open>searchAndListJobs_obj_degraded\<close>). \<^verbatim>\<open>src/services/JobsService.js\<close> has no such check
  and resolves (\<open>searchAndListJobs_resolves\<close>): after a failed load, and for a query that
  matches no job, it delivers an empty page with \<open>total = 0\<close> and \<open>totalPages = 0\<close>,
  where the other version rejects.
\<close>

theorem search_empty_resolves:
  "fst (searchAndListJobs degraded_dir None None None None) =
     Resolve (successResponse
       \<lparr>jobs = [], pagination = \<lparr>total = 0, page = 1, limit = 10, totalPages = Fin 0\<rparr>\<rparr>)
   \<and> fst (searchAndListJobs sample_dir (Some ''zzz'') None None None) =
     Resolve (successResponse
       \<lparr>jobs = [], pagination = \<lparr>total = 0, page = 1, limit = 10, totalPages = Fin 0\<rparr>\<rparr>)
   \<and> fst (searchAndListJobs_obj degraded_dir None None None None) =
     Reject (rejectResponse (Obj ''No jobs found'' None) 404)
   \<and> fst (searchAndListJobs_obj sample_dir (Some ''zzz'') None None None) =
     Reject (rejectResponse (Obj ''No jobs found'' None) 404)"
proof -
  have p: "(1::int) = default 1 None" and l: "(10::int) = default 10 None"
    by (simp_all add: default_def)
  have F: "[] = applyFilters None None (load (jobs_json degraded_dir))"
    by (simp add: applyFilters_absent degraded_dir_files)
  have no_match: "applyFilters (Some ''zzz'') None (sample_jobs (\<lambda>n. n)) = []"
    by code_simp
  have no_match_obj: "applyFilters_obj (Some ''zzz'') None (sample_jobs company_named) = []"
    by code_simp
  have Fz: "[] = applyFilters (Some ''zzz'') None (load (jobs_json sample_dir))"
    unfolding sample_dir_files no_match by (rule refl)
  have Gz: "applyFilters_obj (Some ''zzz'') None (load (job_summaries_json sample_dir)) = []"
    unfolding sample_dir_files by (rule no_match_obj)
  have one: "fst (searchAndListJobs degraded_dir None None None None) =
     Resolve (successResponse
       \<lparr>jobs = [], pagination = \<lparr>total = 0, page = 1, limit = 10, totalPages = Fin 0\<rparr>\<rparr>)"
    using searchAndListJobs_result [OF p l F]
    by (simp add: slice_def Math_ceil_div_def)
  have two: "fst (searchAndListJobs sample_dir (Some ''zzz'') None None None) =
     Resolve (successResponse
       \<lparr>jobs = [], pagination = \<lparr>total = 0, page = 1, limit = 10, totalPages = Fin 0\<rparr>\<rparr>)"
    using searchAndListJobs_result [OF p l Fz]
    by (simp add: slice_def Math_ceil_div_def)
  have three: "fst (searchAndListJobs_obj degraded_dir None None None None) =
     Reject (rejectResponse (Obj ''No jobs found'' None) 404)"
    by (rule searchAndListJobs_obj_degraded) (rule degraded_dir_files)
  have four: "fst (searchAndListJobs_obj sample_dir (Some ''zzz'') None None None) =
     Reject (rejectResponse (Obj ''No jobs found'' None) 404)"
    by (rule searchAndListJobs_obj_no_jobs) (rule Gz)
  from one two three four show ?thesis by (intro conjI)
qed

subsection \<open>Pages beyond the last\<close>

text \<open>
  Claim C2. With a non-empty filtered set and a page beyond the last one (at least one page
  existing), a search is to fail with the message \<open>Page number exceeds available pages\<close>.
  The version with company objects does so (\<open>searchAndListJobs_obj_page_exceeds\<close>).
  \<^verbatim>\<open>src/services/JobsService.js\<close> has no such check: on ten records with limit 5, pages 1
  and 2 deliver records 0 to 4 and 5 to 9, and page 3 resolves with an empty page, where the
  other version rejects.
\<close>

theorem search_page_beyond_resolves:
  "fst (searchAndListJobs ten_dir None None (Some 1) (Some 5)) =
     Resolve (successResponse
       \<lparr>jobs = take 5 (ten_jobs (\<lambda>n. n)),
        pagination = \<lparr>total = 10, page = 1, limit = 5, totalPages = Fin 2\<rparr>\<rparr>)
   \<and> fst (searchAndListJobs ten_dir None None (Some 2) (Some 5)) =
     Resolve (successResponse
       \<lparr>jobs = drop 5 (ten_jobs (\<lambda>n. n)),
        pagination = \<lparr>total = 10, page = 2, limit = 5, totalPages = Fin 2\<rparr>\<rparr>)
   \<and> fst (searchAndListJobs ten_dir None None (Some 3) (Some 5)) =
     Resolve (successResponse
       \<lparr>jobs = [], pagination = \<lparr>total = 10, page = 3, limit = 5, totalPages = Fin 2\<rparr>\<rparr>)
   \<and> fst (searchAndListJobs_obj ten_dir None None (Some 3) (Some 5)) =
     Reject (rejectResponse (Obj ''Page number exceeds available pages'' None) 404)"
proof -
  have l: "(5::int) = default 10 (Some 5)" by (simp add: default_def)
  have p1: "(1::int) = default 1 (Some 1)" and p2: "(2::int) = default 1 (Some 2)"
    and p3: "(3::int) = default 1 (Some 3)"
    by (simp_all add: default_def)
  have F: "ten_jobs (\<lambda>n. n) = applyFilters None None (load (jobs_json ten_dir))"
    by (simp add: applyFilters_absent ten_dir_files)
  have G: "ten_jobs company_named = applyFilters_obj None None (load (job_summaries_json ten_dir))"
    by (simp add: applyFilters_absent ten_dir_files)
  have ne: "ten_jobs company_named \<noteq> []"
    using length_ten_jobs[of company_named] by auto
  have one: "fst (searchAndListJobs ten_dir None None (Some 1) (Some 5)) =
     Resolve (successResponse
       \<lparr>jobs = take 5 (ten_jobs (\<lambda>n. n)),
        pagination = \<lparr>total = 10, page = 1, limit = 5, totalPages = Fin 2\<rparr>\<rparr>)"
    using searchAndListJobs_result [OF p1 l F]
    by (simp add: slice_ten_jobs length_ten_jobs Math_ceil_div_samples)
  have two: "fst (searchAndListJobs ten_dir None None (Some 2) (Some 5)) =
     Resolve (successResponse
       \<lparr>jobs = drop 5 (ten_jobs (\<lambda>n. n)),
        pagination = \<lparr>total = 10, page = 2, limit = 5, totalPages = Fin 2\<rparr>\<rparr>)"
    using searchAndListJobs_result [OF p2 l F]
    by (simp add: slice_ten_jobs length_ten_jobs Math_ceil_div_samples)
  have three: "fst (searchAndListJobs ten_dir None None (Some 3) (Some 5)) =
     Resolve (successResponse
       \<lparr>jobs = [], pagination = \<lparr>total = 10, page = 3, limit = 5, totalPages = Fin 2\<rparr>\<rparr>)"
    using searchAndListJobs_result [OF p3 l F]
    by (simp add: slice_ten_jobs length_ten_jobs Math_ceil_div_samples)
  have three_obj: "fst (searchAndListJobs_obj ten_dir None None (Some 3) (Some 5)) =
     Reject (rejectResponse (Obj ''Page number exceeds available pages'' None) 404)"
    using searchAndListJobs_obj_result [OF p3 l G] ne
    by (simp add: length_ten_jobs Math_ceil_div_samples)
  from one two three three_obj show ?thesis by (intro conjI)
qed

subsection \<open>The query filter\<close>

text \<open>
  Claim C3. For a present, non-empty \<open>q\<close> the query filter keeps exactly the records in which
  the lowercased \<open>q\<close> is a substring (\<open>sublist\<close>) of the lowercased title, of the lowercased
  company name (the company string in \<^verbatim>\<open>src/services/JobsService.js\<close>), or of the
  lowercased location, in the order of the collection; the location filter is applied to
  its result; and an omitted (or null) or empty \<open>q\<close> hands the collection to the location
  filter as it is. Both versions of the service.
\<close>

theorem q_filter_keeps_matches:
  assumes "s \<noteq> []"
  shows "q_filter (Some s) js =
           filter (\<lambda>j. sublist (toLowerCase s) (toLowerCase (title j)) \<or>
                       sublist (toLowerCase s) (toLowerCase (company j)) \<or>
                       sublist (toLowerCase s) (toLowerCase (location j))) js
       \<and> q_filter_obj (Some s) js' =
           filter (\<lambda>j. sublist (toLowerCase s) (toLowerCase (title j)) \<or>
                       sublist (toLowerCase s) (toLowerCase (name (company j))) \<or>
                       sublist (toLowerCase s) (toLowerCase (location j))) js'
       \<and> applyFilters (Some s) loc js = location_filter loc (q_filter (Some s) js)
       \<and> applyFilters_obj (Some s) loc js' = location_filter loc (q_filter_obj (Some s) js')
       \<and> applyFilters None loc js = location_filter loc js
       \<and> applyFilters (Some []) loc js = location_filter loc js
       \<and> applyFilters_obj None loc js' = location_filter loc js'
       \<and> applyFilters_obj (Some []) loc js' = location_filter loc js'"
  using assms
  by (simp add: q_filter_Some q_filter_obj_Some applyFilters_def applyFilters_obj_def
        q_filter_absent q_filter_obj_absent)

text \<open>
  On the sample collection \<open>BER\<close> is found in a location (Berlin) and in a company
  (Bergwerk), whatever the case of the letters.
\<close>

theorem q_filter_keeps_matches_witness:
  "''BER'' \<noteq> []
   \<and> filter (\<lambda>j. sublist (toLowerCase ''BER'') (toLowerCase (title j)) \<or>
                 sublist (toLowerCase ''BER'') (toLowerCase (company j)) \<or>
                 sublist (toLowerCase ''BER'') (toLowerCase (location j)))
         (sample_jobs (\<lambda>n. n)) =
       [mk_job ''a'' ''Senior Engineer'' ''TechCorp'' ''Berlin'',
        mk_job ''b'' ''Designer'' ''Bergwerk'' ''Austin'']
   \<and> filter (\<lambda>j. sublist (toLowerCase ''BER'') (toLowerCase (title j)) \<or>
                 sublist (toLowerCase ''BER'') (toLowerCase (name (company j))) \<or>
                 sublist (toLowerCase ''BER'') (toLowerCase (location j)))
         (sample_jobs company_named) =
       [mk_job ''a'' ''Senior Engineer'' (company_named ''TechCorp'') ''Berlin'',
        mk_job ''b'' ''Designer'' (company_named ''Bergwerk'') ''Austin'']"
proof -
  have ne: "''BER'' \<noteq> []" by simp
  note inst = q_filter_keeps_matches
    [OF ne, of "sample_jobs (\<lambda>n. n)" "sample_jobs company_named" None]
  have run: "q_filter (Some ''BER'') (sample_jobs (\<lambda>n. n)) =
       [mk_job ''a'' ''Senior Engineer'' ''TechCorp'' ''Berlin'',
        mk_job ''b'' ''Designer'' ''Bergwerk'' ''Austin'']"
    by code_simp
  have run_obj: "q_filter_obj (Some ''BER'') (sample_jobs company_named) =
       [mk_job ''a'' ''Senior Engineer'' (company_named ''TechCorp'') ''Berlin'',
        mk_job ''b'' ''Designer'' (company_named ''Bergwerk'') ''Austin'']"
    by code_simp
  from inst have "q_filter (Some ''BER'') (sample_jobs (\<lambda>n. n)) =
      filter (\<lambda>j. sublist (toLowerCase ''BER'') (toLowerCase (title j)) \<or>
                 sublist (toLowerCase ''BER'') (toLowerCase (company j)) \<or>
                 sublist (toLowerCase ''BER'') (toLowerCase (location j)))
         (sample_jobs (\<lambda>n. n))"
    by (rule conjunct1)
  from this[symmetric] run have first: "filter (\<lambda>j. sublist (toLowerCase ''BER'') (toLowerCase (title j)) \<or>
                 sublist (toLowerCase ''BER'') (toLowerCase (company j)) \<or>
                 sublist (toLowerCase ''BER'') (toLowerCase (location j)))
         (sample_jobs (\<lambda>n. n)) =
       [mk_job ''a'' ''Senior Engineer'' ''TechCorp'' ''Berlin'',
        mk_job ''b'' ''Designer'' ''Bergwerk'' ''Austin'']"
    by (rule trans)
  from inst have "q_filter_obj (Some ''BER'') (sample_jobs company_named) =
      filter (\<lambda>j. sublist (toLowerCase ''BER'') (toLowerCase (title j)) \<or>
                 sublist (toLowerCase ''BER'') (toLowerCase (name (company j))) \<or>
                 sublist (toLowerCase ''BER'') (toLowerCase (location j)))
         (sample_jobs company_named)"
    by (rule conjunct1[OF conjunct2])
  from this[symmetric] run_obj have second: "filter (\<lambda>j. sublist (toLowerCase ''BER'') (toLowerCase (title j)) \<or>
                 sublist (toLowerCase ''BER'') (toLowerCase (name (company j))) \<or>
                 sublist (toLowerCase ''BER'') (toLowerCase (location j)))
         (sample_jobs company_named) =
       [mk_job ''a'' ''Senior Engineer'' (company_named ''TechCorp'') ''Berlin'',
        mk_job ''b'' ''Designer'' (company_named ''Bergwerk'') ''Austin'']"
    by (rule trans)
  from ne first second show ?thesis by (intro conjI)
qed

subsection \<open>The location filter\<close>

text \<open>
  Claim C4. With \<open>q\<close> and \<open>location\<close> both present and non-empty, the query filter alone
  keeps the records in which the lowercased \<open>q\<close> is a substring of the lowercased title,
  company name or location, the location filter alone keeps the records whose lowercased
  location contains the lowercased location term, and the two together keep, from the
  records that the query filter kept, exactly those whose lowercased location contains the
  lowercased location term: the records that satisfy both conditions, in the order of the
  collection, which as a set is the intersection of the two single results. Both versions
  of the service.
\<close>

theorem location_filter_intersects:
  assumes "s \<noteq> []" and "l \<noteq> []"
  shows "applyFilters (Some s) None js =
           filter (\<lambda>j. sublist (toLowerCase s) (toLowerCase (title j)) \<or>
                       sublist (toLowerCase s) (toLowerCase (company j)) \<or>
                       sublist (toLowerCase s) (toLowerCase (location j))) js
       \<and> applyFilters None (Some l) js =
           filter (\<lambda>j. sublist (toLowerCase l) (toLowerCase (location j))) js
       \<and> applyFilters (Some s) (Some l) js =
           filter (\<lambda>j. sublist (toLowerCase l) (toLowerCase (location j)))
             (filter (\<lambda>j. sublist (toLowerCase s) (toLowerCase (title j)) \<or>
                           sublist (toLowerCase s) (toLowerCase (company j)) \<or>
                           sublist (toLowerCase s) (toLowerCase (location j))) js)
       \<and> applyFilters (Some s) (Some l) js =
           filter (\<lambda>j. (sublist (toLowerCase s) (toLowerCase (title j)) \<or>
                        sublist (toLowerCase s) (toLowerCase (company j)) \<or>
                        sublist (toLowerCase s) (toLowerCase (location j))) \<and>
                       sublist (toLowerCase l) (toLowerCase (location j))) js
       \<and> set (applyFilters (Some s) (Some l) js) =
           set (filter (\<lambda>j. sublist (toLowerCase s) (toLowerCase (title j)) \<or>
                            sublist (toLowerCase s) (toLowerCase (company j)) \<or>
                            sublist (toLowerCase s) (toLowerCase (location j))) js)
           \<inter> set (filter (\<lambda>j. sublist (toLowerCase l) (toLowerCase (location j))) js)
       \<and> applyFilters_obj (Some s) None js' =
           filter (\<lambda>j. sublist (toLowerCase s) (toLowerCase (title j)) \<or>
                       sublist (toLowerCase s) (toLowerCase (name (company j))) \<or>
                       sublist (toLowerCase s) (toLowerCase (location j))) js'
       \<and> applyFilters_obj None (Some l) js' =
           filter (\<lambda>j. sublist (toLowerCase l) (toLowerCase (location j))) js'
       \<and> applyFilters_obj (Some s) (Some l) js' =
           filter (\<lambda>j. sublist (toLowerCase l) (toLowerCase (location j)))
             (filter (\<lambda>j. sublist (toLowerCase s) (toLowerCase (title j)) \<or>
                           sublist (toLowerCase s) (toLowerCase (name (company j))) \<or>
                           sublist (toLowerCase s) (toLowerCase (location j))) js')
       \<and> applyFilters_obj (Some s) (Some l) js' =
           filter (\<lambda>j. (sublist (toLowerCase s) (toLowerCase (title j)) \<or>
                        sublist (toLowerCase s) (toLowerCase (name (company j))) \<or>
                        sublist (toLowerCase s) (toLowerCase (location j))) \<and>
                       sublist (toLowerCase l) (toLowerCase (location j))) js'
       \<and> set (applyFilters_obj (Some s) (Some l) js') =
           set (filter (\<lambda>j. sublist (toLowerCase s) (toLowerCase (title j)) \<or>
                            sublist (toLowerCase s) (toLowerCase (name (company j))) \<or>
                            sublist (toLowerCase s) (toLowerCase (location j))) js')
           \<inter> set (filter (\<lambda>j. sublist (toLowerCase l) (toLowerCase (location j))) js')"
proof -
  let ?Q = "\<lambda>j. sublist (toLowerCase s) (toLowerCase (title j)) \<or>
                 sublist (toLowerCase s) (toLowerCase (company j)) \<or>
                 sublist (toLowerCase s) (toLowerCase (location j))"
  let ?Q' = "\<lambda>j. sublist (toLowerCase s) (toLowerCase (title j)) \<or>
                 sublist (toLowerCase s) (toLowerCase (name (company j))) \<or>
                 sublist (toLowerCase s) (toLowerCase (location j))"
  have q: "applyFilters (Some s) None js = filter ?Q js"
    using assms(1) by (simp add: applyFilters_def location_filter_absent q_filter_Some)
  have q': "applyFilters_obj (Some s) None js' = filter ?Q' js'"
    using assms(1) by (simp add: applyFilters_obj_def location_filter_absent q_filter_obj_Some)
  have loc: "applyFilters None (Some l) js =
               filter (\<lambda>j. sublist (toLowerCase l) (toLowerCase (location j))) js"
    using assms(2) by (simp add: applyFilters_def location_filter_Some q_filter_absent)
  have loc': "applyFilters_obj None (Some l) js' =
               filter (\<lambda>j. sublist (toLowerCase l) (toLowerCase (location j))) js'"
    using assms(2) by (simp add: applyFilters_obj_def location_filter_Some q_filter_obj_absent)
  have both: "applyFilters (Some s) (Some l) js =
               filter (\<lambda>j. sublist (toLowerCase l) (toLowerCase (location j))) (filter ?Q js)"
    using assms
    by (simp add: applyFilters_def location_filter_Some q_filter_Some del: filter_filter)
  have both': "applyFilters_obj (Some s) (Some l) js' =
               filter (\<lambda>j. sublist (toLowerCase l) (toLowerCase (location j))) (filter ?Q' js')"
    using assms
    by (simp add: applyFilters_obj_def location_filter_Some q_filter_obj_Some
          del: filter_filter)
  have conj: "applyFilters (Some s) (Some l) js =
               filter (\<lambda>j. ?Q j \<and> sublist (toLowerCase l) (toLowerCase (location j))) js"
    unfolding both by simp
  have conj': "applyFilters_obj (Some s) (Some l) js' =
               filter (\<lambda>j. ?Q' j \<and> sublist (toLowerCase l) (toLowerCase (location j))) js'"
    unfolding both' by simp
  have inter: "set (applyFilters (Some s) (Some l) js) =
      set (filter ?Q js)
        \<inter> set (filter (\<lambda>j. sublist (toLowerCase l) (toLowerCase (location j))) js)"
    unfolding both by (rule set_filter_filter)
  have inter': "set (applyFilters_obj (Some s) (Some l) js') =
      set (filter ?Q' js')
        \<inter> set (filter (\<lambda>j. sublist (toLowerCase l) (toLowerCase (location j))) js')"
    unfolding both' by (rule set_filter_filter)
  from q loc both conj inter q' loc' both' conj' inter' show ?thesis by (intro conjI)
qed

text \<open>
  On the sample collection, in both versions, the query matches jobs a and b, the location
  term job a; the result is job a, which is the intersection and not the union.
\<close>

theorem location_filter_intersects_witness:
  "''BER'' \<noteq> [] \<and> ''ber'' \<noteq> []
   \<and> applyFilters (Some ''BER'') None (sample_jobs (\<lambda>n. n)) =
       [mk_job ''a'' ''Senior Engineer'' ''TechCorp'' ''Berlin'',
        mk_job ''b'' ''Designer'' ''Bergwerk'' ''Austin'']
   \<and> applyFilters None (Some ''ber'') (sample_jobs (\<lambda>n. n)) =
       [mk_job ''a'' ''Senior Engineer'' ''TechCorp'' ''Berlin'']
   \<and> applyFilters (Some ''BER'') (Some ''ber'') (sample_jobs (\<lambda>n. n)) =
       [mk_job ''a'' ''Senior Engineer'' ''TechCorp'' ''Berlin'']
   \<and> filter (\<lambda>j. (sublist (toLowerCase ''BER'') (toLowerCase (title j)) \<or>
                  sublist (toLowerCase ''BER'') (toLowerCase (company j)) \<or>
                  sublist (toLowerCase ''BER'') (toLowerCase (location j))) \<and>
                 sublist (toLowerCase ''ber'') (toLowerCase (location j)))
         (sample_jobs (\<lambda>n. n)) =
       [mk_job ''a'' ''Senior Engineer'' ''TechCorp'' ''Berlin'']
   \<and> set (applyFilters (Some ''BER'') None (sample_jobs (\<lambda>n. n)))
         \<union> set (applyFilters None (Some ''ber'') (sample_jobs (\<lambda>n. n))) \<noteq>
       set (applyFilters (Some ''BER'') (Some ''ber'') (sample_jobs (\<lambda>n. n)))
   \<and> applyFilters_obj (Some ''BER'') None (sample_jobs company_named) =
       [mk_job ''a'' ''Senior Engineer'' (company_named ''TechCorp'') ''Berlin'',
        mk_job ''b'' ''Designer'' (company_named ''Bergwerk'') ''Austin'']
   \<and> applyFilters_obj None (Some ''ber'') (sample_jobs company_named) =
       [mk_job ''a'' ''Senior Engineer'' (company_named ''TechCorp'') ''Berlin'']
   \<and> applyFilters_obj (Some ''BER'') (Some ''ber'') (sample_jobs company_named) =
       [mk_job ''a'' ''Senior Engineer'' (company_named ''TechCorp'') ''Berlin'']
   \<and> filter (\<lambda>j. (sublist (toLowerCase ''BER'') (toLowerCase (title j)) \<or>
                  sublist (toLowerCase ''BER'') (toLowerCase (name (company j))) \<or>
                  sublist (toLowerCase ''BER'') (toLowerCase (location j))) \<and>
                 sublist (toLowerCase ''ber'') (toLowerCase (location j)))
         (sample_jobs company_named) =
       [mk_job ''a'' ''Senior Engineer'' (company_named ''TechCorp'') ''Berlin'']
   \<and> set (applyFilters_obj (Some ''BER'') None (sample_jobs company_named))
         \<union> set (applyFilters_obj None (Some ''ber'') (sample_jobs company_named)) \<noteq>
       set (applyFilters_obj (Some ''BER'') (Some ''ber'') (sample_jobs company_named))"
proof -
  let ?js = "sample_jobs (\<lambda>n. n) :: string job list"
  let ?js' = "sample_jobs company_named"
  let ?a = "mk_job ''a'' ''Senior Engineer'' ''TechCorp'' ''Berlin''"
  let ?b = "mk_job ''b'' ''Designer'' ''Bergwerk'' ''Austin''"
  let ?a' = "mk_job ''a'' ''Senior Engineer'' (company_named ''TechCorp'') ''Berlin''"
  let ?b' = "mk_job ''b'' ''Designer'' (company_named ''Bergwerk'') ''Austin''"
  have q: "''BER'' \<noteq> []" and l: "''ber'' \<noteq> []" by simp_all
  note inst = location_filter_intersects [OF q l, of ?js ?js']
  have run_q: "applyFilters (Some ''BER'') None ?js = [?a, ?b]" by code_simp
  have run_l: "applyFilters None (Some ''ber'') ?js = [?a]" by code_simp
  have run_both: "applyFilters (Some ''BER'') (Some ''ber'') ?js = [?a]" by code_simp
  have run_q': "applyFilters_obj (Some ''BER'') None ?js' = [?a', ?b']" by code_simp
  have run_l': "applyFilters_obj None (Some ''ber'') ?js' = [?a']" by code_simp
  have run_both': "applyFilters_obj (Some ''BER'') (Some ''ber'') ?js' = [?a']" by code_simp
  from inst have "applyFilters (Some ''BER'') (Some ''ber'') ?js =
      filter (\<lambda>j. (sublist (toLowerCase ''BER'') (toLowerCase (title j)) \<or>
                  sublist (toLowerCase ''BER'') (toLowerCase (company j)) \<or>
                  sublist (toLowerCase ''BER'') (toLowerCase (location j))) \<and>
                 sublist (toLowerCase ''ber'') (toLowerCase (location j))) ?js"
    by (rule conjunct1[OF conjunct2[OF conjunct2[OF conjunct2]]])
  from this[symmetric] run_both
  have kept: "filter (\<lambda>j. (sublist (toLowerCase ''BER'') (toLowerCase (title j)) \<or>
                  sublist (toLowerCase ''BER'') (toLowerCase (company j)) \<or>
                  sublist (toLowerCase ''BER'') (toLowerCase (location j))) \<and>
                 sublist (toLowerCase ''ber'') (toLowerCase (location j))) ?js = [?a]"
    by (rule trans)
  from inst have "applyFilters_obj (Some ''BER'') (Some ''ber'') ?js' =
      filter (\<lambda>j. (sublist (toLowerCase ''BER'') (toLowerCase (title j)) \<or>
                  sublist (toLowerCase ''BER'') (toLowerCase (name (company j))) \<or>
                  sublist (toLowerCase ''BER'') (toLowerCase (location j))) \<and>
                 sublist (toLowerCase ''ber'') (toLowerCase (location j))) ?js'"
    by (rule conjunct1[OF conjunct2[OF conjunct2[OF conjunct2[OF conjunct2[OF conjunct2
          [OF conjunct2[OF conjunct2[OF conjunct2]]]]]]]])
  from this[symmetric] run_both'
  have kept': "filter (\<lambda>j. (sublist (toLowerCase ''BER'') (toLowerCase (title j)) \<or>
                  sublist (toLowerCase ''BER'') (toLowerCase (name (company j))) \<or>
                  sublist (toLowerCase ''BER'') (toLowerCase (location j))) \<and>
                 sublist (toLowerCase ''ber'') (toLowerCase (location j))) ?js' = [?a']"
    by (rule trans)
  have ab: "?b \<noteq> ?a" and ab': "?b' \<noteq> ?a'" by (simp_all add: mk_job_def)
  have union: "set (applyFilters (Some ''BER'') None ?js)
      \<union> set (applyFilters None (Some ''ber'') ?js) \<noteq>
      set (applyFilters (Some ''BER'') (Some ''ber'') ?js)"
    unfolding run_q run_l run_both using ab by auto
  have union': "set (applyFilters_obj (Some ''BER'') None ?js')
      \<union> set (applyFilters_obj None (Some ''ber'') ?js') \<noteq>
      set (applyFilters_obj (Some ''BER'') (Some ''ber'') ?js')"
    unfolding run_q' run_l' run_both' using ab' by auto
  from q l run_q run_l run_both kept union run_q' run_l' run_both' kept' union'
  show ?thesis by (intro conjI)
qed

subsection \<open>Pagination\<close>

text \<open>
  Claim C5. For a limit and a page of at least 1 (given or by default), a search that
  succeeds delivers the window \<open>[(page - 1) * limit, (page - 1) * limit + limit)\<close> of the
  filtered sequence in its order, with \<open>total\<close> the number of filtered records,
  \<open>totalPages\<close> the ceiling of \<open>total / limit\<close> (0 when \<open>total\<close> is 0), and the page and
  limit that were used. \<^verbatim>\<open>src/services/JobsService.js\<close> always succeeds; the version with
  company objects succeeds when the filtered set is non-empty and the page is not beyond
  the last one.
\<close>

theorem pagination_contract:
  assumes "1 \<le> lmt" and "1 \<le> pg"
    and "lmt = default 10 limitArg" and "pg = default 1 pageArg"
    and "F = applyFilters q loc (load (jobs_json d))"
    and "G = applyFilters_obj q loc (load (job_summaries_json d))"
  shows "fst (searchAndListJobs d q loc pageArg limitArg) =
           Resolve (successResponse
             \<lparr>jobs = take (nat lmt) (drop (nat ((pg - 1) * lmt)) F),
              pagination = \<lparr>total = int (length F), page = pg, limit = lmt,
                              totalPages = Fin \<lceil>real (length F) / real_of_int lmt\<rceil>\<rparr>\<rparr>)
       \<and> (length F = 0 \<longrightarrow> \<lceil>real (length F) / real_of_int lmt\<rceil> = 0)
       \<and> fst (searchAndListJobs_obj d q loc pageArg limitArg) =
           (if G = [] then Reject (rejectResponse (Obj ''No jobs found'' None) 404)
            else if \<lceil>real (length G) / real_of_int lmt\<rceil> < pg
            then Reject (rejectResponse (Obj ''Page number exceeds available pages'' None) 404)
            else Resolve (successResponse
             \<lparr>jobs = take (nat lmt) (drop (nat ((pg - 1) * lmt)) G),
              pagination = \<lparr>total = int (length G), page = pg, limit = lmt,
                              totalPages = Fin \<lceil>real (length G) / real_of_int lmt\<rceil>\<rparr>\<rparr>))"
proof -
  have lmt0: "lmt \<noteq> 0" using assms(1) by simp
  have win: "slice xs ((pg - 1) * lmt) ((pg - 1) * lmt + lmt)
               = take (nat lmt) (drop (nat ((pg - 1) * lmt)) xs)" for xs :: "'x list"
    using assms(2) assms(1) by (rule slice_page_window)
  have first: "fst (searchAndListJobs d q loc pageArg limitArg) =
           Resolve (successResponse
             \<lparr>jobs = take (nat lmt) (drop (nat ((pg - 1) * lmt)) F),
              pagination = \<lparr>total = int (length F), page = pg, limit = lmt,
                              totalPages = Fin \<lceil>real (length F) / real_of_int lmt\<rceil>\<rparr>\<rparr>)"
    using searchAndListJobs_result[OF assms(4) assms(3) assms(5)]
    by (simp add: slice_page_window[OF assms(2) assms(1)] Math_ceil_div_Fin[OF lmt0])
  have zero: "length F = 0 \<longrightarrow> \<lceil>real (length F) / real_of_int lmt\<rceil> = 0"
    by simp
  have pos: "G \<noteq> [] \<Longrightarrow> 0 < \<lceil>real (length G) / real_of_int lmt\<rceil>"
    using ceil_pos_iff[OF assms(1), of "length G"] by simp
  have second: "fst (searchAndListJobs_obj d q loc pageArg limitArg) =
           (if G = [] then Reject (rejectResponse (Obj ''No jobs found'' None) 404)
            else if \<lceil>real (length G) / real_of_int lmt\<rceil> < pg
            then Reject (rejectResponse (Obj ''Page number exceeds available pages'' None) 404)
            else Resolve (successResponse
             \<lparr>jobs = take (nat lmt) (drop (nat ((pg - 1) * lmt)) G),
              pagination = \<lparr>total = int (length G), page = pg, limit = lmt,
                              totalPages = Fin \<lceil>real (length G) / real_of_int lmt\<rceil>\<rparr>\<rparr>))"
    using searchAndListJobs_obj_result[OF assms(4) assms(3) assms(6)] pos
    by (simp add: slice_page_window[OF assms(2) assms(1)] Math_ceil_div_Fin[OF lmt0])
  from first zero second show ?thesis by blast
qed

theorem pagination_contract_witness:
  "(1::int) \<le> 5 \<and> (1::int) \<le> 2
   \<and> fst (searchAndListJobs ten_dir None None (Some 2) (Some 5)) =
       Resolve (successResponse
         \<lparr>jobs = drop 5 (ten_jobs (\<lambda>n. n)),
          pagination = \<lparr>total = 10, page = 2, limit = 5, totalPages = Fin 2\<rparr>\<rparr>)
   \<and> fst (searchAndListJobs_obj ten_dir None None (Some 2) (Some 5)) =
       Resolve (successResponse
         \<lparr>jobs = drop 5 (ten_jobs company_named),
          pagination = \<lparr>total = 10, page = 2, limit = 5, totalPages = Fin 2\<rparr>\<rparr>)"
proof -
  have l: "(1::int) \<le> 5" and p: "(1::int) \<le> 2" by simp_all
  have dl: "(5::int) = default 10 (Some 5)" and dp: "(2::int) = default 1 (Some 2)"
    by (simp_all add: default_def)
  have F: "ten_jobs (\<lambda>n. n) = applyFilters None None (load (jobs_json ten_dir))"
    by (simp add: applyFilters_absent ten_dir_files)
  have G: "ten_jobs company_named = applyFilters_obj None None (load (job_summaries_json ten_dir))"
    by (simp add: applyFilters_absent ten_dir_files)
  have ne: "ten_jobs company_named \<noteq> []"
    using length_ten_jobs[of company_named] by auto
  note inst = pagination_contract [OF l p dl dp F G]
  from inst ne show ?thesis
    by (simp add: length_ten_jobs)
qed

subsection \<open>Detail lookup\<close>

text \<open>
  Claim C6. \<open>getJobDetails\<close> leaves the data directory as it is. If no record of the detail
  collection has the requested id, it rejects with the message \<open>Job not found\<close> and status
  404. If some record has it, it resolves with a record of the collection that has this id,
  unmodified: the first one, which is the only one when the ids are distinct (section 3 of
  the spec). Both versions of the service; they differ in the shape of the rejection only.
\<close>

theorem getJobDetails_contract:
  "snd (getJobDetails d jobId) = d \<and> snd (getJobDetails_obj d jobId) = d
   \<and> (jobId \<notin> detail_id ` set (load (job_details_json d)) \<longrightarrow>
        fst (getJobDetails d jobId) = Reject (rejectResponse (Str ''Job not found'') 404)
      \<and> fst (getJobDetails_obj d jobId) =
          Reject (rejectResponse (Obj ''Job not found'' (Some 404)) 404))
   \<and> (jobId \<in> detail_id ` set (load (job_details_json d)) \<longrightarrow>
        (\<exists>pre r post. load (job_details_json d) = pre @ r # post
            \<and> detail_id r = jobId \<and> jobId \<notin> detail_id ` set pre
            \<and> fst (getJobDetails d jobId) = Resolve (successResponse r)
            \<and> fst (getJobDetails_obj d jobId) = Resolve (successResponse r)))
   \<and> (\<forall>r \<in> set (load (job_details_json d)).
        distinct (map detail_id (load (job_details_json d))) \<and> detail_id r = jobId \<longrightarrow>
          fst (getJobDetails d jobId) = Resolve (successResponse r)
        \<and> fst (getJobDetails_obj d jobId) = Resolve (successResponse r))"
proof -
  let ?xs = "load (job_details_json d)"
  let ?P = "\<lambda>job. detail_id job = jobId"
  have state: "snd (getJobDetails d jobId) = d \<and> snd (getJobDetails_obj d jobId) = d"
    by (simp add: getJobDetails_def getJobDetails_obj_def Let_def split: option.split)
  have miss: "fst (getJobDetails d jobId) = Reject (rejectResponse (Str ''Job not found'') 404)
      \<and> fst (getJobDetails_obj d jobId) =
          Reject (rejectResponse (Obj ''Job not found'' (Some 404)) 404)"
    if "jobId \<notin> detail_id ` set ?xs"
  proof -
    from that have "find ?P ?xs = None" by (auto simp: find_None_iff)
    then show ?thesis by (simp add: getJobDetails_def getJobDetails_obj_def)
  qed
  have res: "fst (getJobDetails d jobId) = Resolve (successResponse r)
      \<and> fst (getJobDetails_obj d jobId) = Resolve (successResponse r)"
    if "find ?P ?xs = Some r" for r
    using that by (simp add: getJobDetails_def getJobDetails_obj_def)
  have hit: "\<exists>pre r post. ?xs = pre @ r # post
            \<and> detail_id r = jobId \<and> jobId \<notin> detail_id ` set pre
            \<and> fst (getJobDetails d jobId) = Resolve (successResponse r)
            \<and> fst (getJobDetails_obj d jobId) = Resolve (successResponse r)"
    if "jobId \<in> detail_id ` set ?xs"
  proof -
    from that obtain r where r: "find ?P ?xs = Some r"
      by (cases "find ?P ?xs") (auto simp: find_None_iff)
    from find_first[OF r] obtain pre post
      where "?xs = pre @ r # post" "detail_id r = jobId" "\<forall>y\<in>set pre. detail_id y \<noteq> jobId"
      by blast
    moreover from this(3) have "jobId \<notin> detail_id ` set pre" by auto
    ultimately show ?thesis using res[OF r] by blast
  qed
  have uniq: "fst (getJobDetails d jobId) = Resolve (successResponse r)
        \<and> fst (getJobDetails_obj d jobId) = Resolve (successResponse r)"
    if "r \<in> set ?xs" "distinct (map detail_id ?xs)" "detail_id r = jobId" for r
  proof -
    from find_distinct[OF that(2) that(1)] that(3) have "find ?P ?xs = Some r" by simp
    then show ?thesis by (rule res)
  qed
  from state miss hit uniq show ?thesis by blast
qed

theorem getJobDetails_contract_witness:
  "''zzz'' \<notin> detail_id ` set (load (job_details_json sample_dir))
   \<and> fst (getJobDetails sample_dir ''zzz'') = Reject (rejectResponse (Str ''Job not found'') 404)
   \<and> fst (getJobDetails_obj sample_dir ''zzz'') =
       Reject (rejectResponse (Obj ''Job not found'' (Some 404)) 404)
   \<and> \<lparr>detail_id = ''b''\<rparr> \<in> set (load (job_details_json sample_dir))
   \<and> distinct (map detail_id (load (job_details_json sample_dir)))
   \<and> fst (getJobDetails sample_dir ''b'') = Resolve (successResponse \<lparr>detail_id = ''b''\<rparr>)
   \<and> fst (getJobDetails_obj sample_dir ''b'') = Resolve (successResponse \<lparr>detail_id = ''b''\<rparr>)
   \<and> snd (getJobDetails sample_dir ''b'') = sample_dir"
proof -
  have files: "load (job_details_json sample_dir) = sample_details"
    by (simp add: sample_dir_def load_def)
  have miss: "''zzz'' \<notin> detail_id ` set (load (job_details_json sample_dir))"
    unfolding files by (simp add: sample_details_def)
  have mem: "\<lparr>detail_id = ''b''\<rparr> \<in> set (load (job_details_json sample_dir))"
    unfolding files by (simp add: sample_details_def)
  have dist: "distinct (map detail_id (load (job_details_json sample_dir)))"
    unfolding files by (simp add: sample_details_def)
  have b: "detail_id \<lparr>detail_id = ''b''\<rparr> = ''b''" by simp
  note z = getJobDetails_contract [of sample_dir "''zzz''"]
  note h = getJobDetails_contract [of sample_dir "''b''"]
  from z miss have rej: "fst (getJobDetails sample_dir ''zzz'') =
        Reject (rejectResponse (Str ''Job not found'') 404)
      \<and> fst (getJobDetails_obj sample_dir ''zzz'') =
        Reject (rejectResponse (Obj ''Job not found'' (Some 404)) 404)"
    by blast
  from h mem dist b have res: "fst (getJobDetails sample_dir ''b'') =
        Resolve (successResponse \<lparr>detail_id = ''b''\<rparr>)
      \<and> fst (getJobDetails_obj sample_dir ''b'') =
        Resolve (successResponse \<lparr>detail_id = ''b''\<rparr>)"
    by blast
  from h have st: "snd (getJobDetails sample_dir ''b'') = sample_dir"
    by (rule conjunct1)
  from miss rej mem dist res st show ?thesis by blast
qed

subsection \<open>The pages cover the filtered sequence\<close>

text \<open>
  Claim C7. For a limit of at least 1, the windows of the pages 1 to \<open>totalPages\<close>, one after
  the other, are the filtered sequence itself: every record once, in the original order.
  This holds for the windows, for the pages that \<^verbatim>\<open>src/services/JobsService.js\<close> delivers,
  and for the pages that the version with company objects delivers, each of which is a
  success.
\<close>

theorem pages_reconstruct:
  assumes "1 \<le> lmt" and "lmt = default 10 limitArg"
    and "F = applyFilters q loc (load (jobs_json d))"
    and "G = applyFilters_obj q loc (load (job_summaries_json d))"
  shows "concat (map (\<lambda>p. slice F ((p - 1) * lmt) ((p - 1) * lmt + lmt))
                   [1..\<lceil>real (length F) / real_of_int lmt\<rceil>]) = F
       \<and> concat (map (\<lambda>p. jobs_of (fst (searchAndListJobs d q loc (Some p) limitArg)))
                   [1..\<lceil>real (length F) / real_of_int lmt\<rceil>]) = F
       \<and> (\<forall>p \<in> set [1..\<lceil>real (length G) / real_of_int lmt\<rceil>].
            fst (searchAndListJobs_obj d q loc (Some p) limitArg) =
              Resolve (successResponse
                \<lparr>jobs = slice G ((p - 1) * lmt) ((p - 1) * lmt + lmt),
                 pagination = \<lparr>total = int (length G), page = p, limit = lmt,
                                 totalPages = Fin \<lceil>real (length G) / real_of_int lmt\<rceil>\<rparr>\<rparr>))
       \<and> concat (map (\<lambda>p. jobs_of (fst (searchAndListJobs_obj d q loc (Some p) limitArg)))
                   [1..\<lceil>real (length G) / real_of_int lmt\<rceil>]) = G"
proof -
  let ?TF = "\<lceil>real (length F) / real_of_int lmt\<rceil>"
  let ?TG = "\<lceil>real (length G) / real_of_int lmt\<rceil>"
  have first: "concat (map (\<lambda>p. slice F ((p - 1) * lmt) ((p - 1) * lmt + lmt)) [1..?TF]) = F"
    by (rule concat_slices[OF assms(1)])
  have second:
    "concat (map (\<lambda>p. jobs_of (fst (searchAndListJobs d q loc (Some p) limitArg))) [1..?TF]) = F"
    unfolding searchAndListJobs_jobs_of[OF assms(2) assms(3)] by (rule first)
  have third: "\<forall>p \<in> set [1..?TG].
            fst (searchAndListJobs_obj d q loc (Some p) limitArg) =
              Resolve (successResponse
                \<lparr>jobs = slice G ((p - 1) * lmt) ((p - 1) * lmt + lmt),
                 pagination = \<lparr>total = int (length G), page = p, limit = lmt,
                                 totalPages = Fin ?TG\<rparr>\<rparr>)"
  proof
    fix p assume p: "p \<in> set [1..?TG]"
    then have "p \<le> ?TG" by simp
    moreover from p have "G \<noteq> []" by (rule upto_nonempty_ceil[OF assms(1)])
    ultimately show "fst (searchAndListJobs_obj d q loc (Some p) limitArg) =
              Resolve (successResponse
                \<lparr>jobs = slice G ((p - 1) * lmt) ((p - 1) * lmt + lmt),
                 pagination = \<lparr>total = int (length G), page = p, limit = lmt,
                                 totalPages = Fin ?TG\<rparr>\<rparr>)"
      using searchAndListJobs_obj_in_range[OF assms(1) assms(2) assms(4)] by blast
  qed
  have meq: "map (\<lambda>p. jobs_of (fst (searchAndListJobs_obj d q loc (Some p) limitArg))) [1..?TG]
          = map (\<lambda>p. slice G ((p - 1) * lmt) ((p - 1) * lmt + lmt)) [1..?TG]"
    using third by (intro map_cong refl) simp
  have fourth:
    "concat (map (\<lambda>p. jobs_of (fst (searchAndListJobs_obj d q loc (Some p) limitArg))) [1..?TG]) = G"
    unfolding meq by (rule concat_slices[OF assms(1)])
  from first second third fourth show ?thesis by (intro conjI)
qed

theorem pages_reconstruct_witness:
  "(1::int) \<le> 5
   \<and> slice (ten_jobs company_named) 0 5 @ slice (ten_jobs company_named) 5 10 =
       ten_jobs company_named
   \<and> jobs_of (fst (searchAndListJobs ten_dir None None (Some 1) (Some 5)))
       @ jobs_of (fst (searchAndListJobs ten_dir None None (Some 2) (Some 5))) =
       ten_jobs (\<lambda>n. n)
   \<and> jobs_of (fst (searchAndListJobs_obj ten_dir None None (Some 1) (Some 5)))
       @ jobs_of (fst (searchAndListJobs_obj ten_dir None None (Some 2) (Some 5))) =
       ten_jobs company_named"
proof -
  have l: "(1::int) \<le> 5" by simp
  have dl: "(5::int) = default 10 (Some 5)" by (simp add: default_def)
  have F: "ten_jobs (\<lambda>n. n) = applyFilters None None (load (jobs_json ten_dir))"
    by (simp add: applyFilters_absent ten_dir_files)
  have G: "ten_jobs company_named = applyFilters_obj None None (load (job_summaries_json ten_dir))"
    by (simp add: applyFilters_absent ten_dir_files)
  have c: "\<lceil>real (10::nat) / real_of_int 5\<rceil> = 2" by simp
  note inst = pages_reconstruct [OF l dl F G]
  have two: "concat (map f [1..(2::int)]) = f 1 @ f 2" for f :: "int \<Rightarrow> 'x list"
    by (simp add: upto_1_2)
  from inst have a: "concat (map (\<lambda>p. jobs_of (fst (searchAndListJobs ten_dir None None (Some p) (Some 5))))
                   [1..\<lceil>real (length (ten_jobs (\<lambda>n. n))) / real_of_int 5\<rceil>]) = ten_jobs (\<lambda>n. n)"
    by (rule conjunct1[OF conjunct2])
  from inst have b: "concat (map (\<lambda>p. jobs_of (fst (searchAndListJobs_obj ten_dir None None (Some p) (Some 5))))
                   [1..\<lceil>real (length (ten_jobs company_named)) / real_of_int 5\<rceil>]) = ten_jobs company_named"
    by (rule conjunct2[OF conjunct2[OF conjunct2]])
  have s: "slice (ten_jobs company_named) 0 5 @ slice (ten_jobs company_named) 5 10 =
       ten_jobs company_named"
    by (simp add: slice_ten_jobs)
  from a have a': "jobs_of (fst (searchAndListJobs ten_dir None None (Some 1) (Some 5)))
       @ jobs_of (fst (searchAndListJobs ten_dir None None (Some 2) (Some 5))) =
       ten_jobs (\<lambda>n. n)"
    by (simp only: length_ten_jobs c two)
  from b have b': "jobs_of (fst (searchAndListJobs_obj ten_dir None None (Some 1) (Some 5)))
       @ jobs_of (fst (searchAndListJobs_obj ten_dir None None (Some 2) (Some 5))) =
       ten_jobs company_named"
    by (simp only: length_ten_jobs c two)
  from l s a' b' show ?thesis by (intro conjI)
qed

subsection \<open>A page within range is not empty\<close>

text \<open>
  Claim C8, as amended. For a page of at least 1 and a limit other than 0, a search that
  succeeds with \<open>total > 0\<close> and \<open>page \<le> totalPages\<close> delivers a non-empty page. Both
  versions of the service.
\<close>

theorem successful_page_nonempty:
  assumes "1 \<le> pg" and "lmt \<noteq> 0"
    and "pg = default 1 pageArg" and "lmt = default 10 limitArg"
  shows "(\<forall>P. fst (searchAndListJobs d q loc pageArg limitArg) = Resolve (successResponse P)
              \<and> 0 < total (pagination P)
              \<and> js_le (Fin (page (pagination P))) (totalPages (pagination P))
            \<longrightarrow> jobs P \<noteq> [])
       \<and> (\<forall>P. fst (searchAndListJobs_obj d q loc pageArg limitArg) = Resolve (successResponse P)
              \<and> 0 < total (pagination P)
              \<and> js_le (Fin (page (pagination P))) (totalPages (pagination P))
            \<longrightarrow> jobs P \<noteq> [])"
proof (intro conjI allI impI)
  fix P
  assume a: "fst (searchAndListJobs d q loc pageArg limitArg) = Resolve (successResponse P)
              \<and> 0 < total (pagination P)
              \<and> js_le (Fin (page (pagination P))) (totalPages (pagination P))"
  let ?F = "applyFilters q loc (load (jobs_json d))"
  have F: "?F = applyFilters q loc (load (jobs_json d))" by (rule refl)
  from a searchAndListJobs_result[OF assms(3) assms(4) F]
  have P: "P = \<lparr>jobs = slice ?F ((pg - 1) * lmt) ((pg - 1) * lmt + lmt),
               pagination = \<lparr>total = int (length ?F), page = pg, limit = lmt,
                               totalPages = Math_ceil_div (length ?F) lmt\<rparr>\<rparr>"
    by simp
  with a have "js_le (Fin pg) (Math_ceil_div (length ?F) lmt)" by simp
  from page_in_range_window_nonempty[OF assms(1) assms(2) this] P
  show "jobs P \<noteq> []" by simp
next
  fix P
  assume a: "fst (searchAndListJobs_obj d q loc pageArg limitArg) = Resolve (successResponse P)
              \<and> 0 < total (pagination P)
              \<and> js_le (Fin (page (pagination P))) (totalPages (pagination P))"
  let ?G = "applyFilters_obj q loc (load (job_summaries_json d))"
  have G: "?G = applyFilters_obj q loc (load (job_summaries_json d))" by (rule refl)
  from a searchAndListJobs_obj_result[OF assms(3) assms(4) G]
  have P: "P = \<lparr>jobs = slice ?G ((pg - 1) * lmt) ((pg - 1) * lmt + lmt),
               pagination = \<lparr>total = int (length ?G), page = pg, limit = lmt,
                               totalPages = Math_ceil_div (length ?G) lmt\<rparr>\<rparr>"
    by (simp split: if_splits)
  with a have "js_le (Fin pg) (Math_ceil_div (length ?G) lmt)" by simp
  from page_in_range_window_nonempty[OF assms(1) assms(2) this] P
  show "jobs P \<noteq> []" by simp
qed

theorem successful_page_nonempty_witness:
  "(1::int) \<le> 2 \<and> (5::int) \<noteq> 0
   \<and> fst (searchAndListJobs_obj ten_dir None None (Some 2) (Some 5)) =
       Resolve (successResponse
         \<lparr>jobs = drop 5 (ten_jobs company_named),
          pagination = \<lparr>total = 10, page = 2, limit = 5, totalPages = Fin 2\<rparr>\<rparr>)
   \<and> (0::int) < 10 \<and> js_le (Fin 2) (Fin 2)
   \<and> drop 5 (ten_jobs company_named) \<noteq> []"
proof -
  have p: "(1::int) \<le> 2" and l: "(5::int) \<noteq> 0" by simp_all
  have dl: "(5::int) = default 10 (Some 5)" and dp: "(2::int) = default 1 (Some 2)"
    by (simp_all add: default_def)
  have G: "ten_jobs company_named = applyFilters_obj None None (load (job_summaries_json ten_dir))"
    by (simp add: applyFilters_absent ten_dir_files)
  have ne: "ten_jobs company_named \<noteq> []"
    using length_ten_jobs[of company_named] by auto
  have run: "fst (searchAndListJobs_obj ten_dir None None (Some 2) (Some 5)) =
       Resolve (successResponse
         \<lparr>jobs = drop 5 (ten_jobs company_named),
          pagination = \<lparr>total = 10, page = 2, limit = 5, totalPages = Fin 2\<rparr>\<rparr>)"
    using searchAndListJobs_obj_result [OF dp dl G] ne
    by (simp add: slice_ten_jobs length_ten_jobs Math_ceil_div_samples)
  note inst = successful_page_nonempty [OF p l dp dl, of ten_dir None None]
  from inst have "\<forall>P. fst (searchAndListJobs_obj ten_dir None None (Some 2) (Some 5)) =
                        Resolve (successResponse P)
              \<and> 0 < total (pagination P)
              \<and> js_le (Fin (page (pagination P))) (totalPages (pagination P))
            \<longrightarrow> jobs P \<noteq> []"
    by (rule conjunct2)
  from this[rule_format, of "\<lparr>jobs = drop 5 (ten_jobs company_named),
          pagination = \<lparr>total = 10, page = 2, limit = 5, totalPages = Fin 2\<rparr>\<rparr>"] run
  have "drop 5 (ten_jobs company_named) \<noteq> []" by simp
  with p l run show ?thesis by simp
qed

text \<open>
  Claim C8 as stated, for every successful search, fails at page 0: on three records with
  limit 1 both versions succeed with \<open>total = 3\<close>, \<open>page = 0 \<le> totalPages = 3\<close> and an
  empty page.
\<close>

theorem empty_successful_page_counterexample:
  "fst (searchAndListJobs_obj sample_dir None None (Some 0) (Some 1)) =
     Resolve (successResponse
       \<lparr>jobs = [], pagination = \<lparr>total = 3, page = 0, limit = 1, totalPages = Fin 3\<rparr>\<rparr>)
   \<and> fst (searchAndListJobs sample_dir None None (Some 0) (Some 1)) =
     Resolve (successResponse
       \<lparr>jobs = [], pagination = \<lparr>total = 3, page = 0, limit = 1, totalPages = Fin 3\<rparr>\<rparr>)
   \<and> (0::int) < 3 \<and> js_le (Fin 0) (Fin 3)"
proof -
  have l: "(1::int) = default 10 (Some 1)" and p: "(0::int) = default 1 (Some 0)"
    by (simp_all add: default_def)
  have F: "sample_jobs (\<lambda>n. n) = applyFilters None None (load (jobs_json sample_dir))"
    by (simp add: applyFilters_absent sample_dir_files)
  have G: "sample_jobs company_named =
             applyFilters_obj None None (load (job_summaries_json sample_dir))"
    by (simp add: applyFilters_absent sample_dir_files)
  have ne: "sample_jobs company_named \<noteq> []"
    using length_sample_jobs[of company_named] by auto
  have sl: "slice (sample_jobs mk) (- 1) 0 = []" for mk :: "string \<Rightarrow> 'c"
    by (simp add: slice_def)
  have one: "fst (searchAndListJobs_obj sample_dir None None (Some 0) (Some 1)) =
     Resolve (successResponse
       \<lparr>jobs = [], pagination = \<lparr>total = 3, page = 0, limit = 1, totalPages = Fin 3\<rparr>\<rparr>)"
    using searchAndListJobs_obj_result [OF p l G] ne
    by (simp add: sl length_sample_jobs Math_ceil_div_samples)
  have two: "fst (searchAndListJobs sample_dir None None (Some 0) (Some 1)) =
     Resolve (successResponse
       \<lparr>jobs = [], pagination = \<lparr>total = 3, page = 0, limit = 1, totalPages = Fin 3\<rparr>\<rparr>)"
    using searchAndListJobs_result [OF p l F]
    by (simp add: sl length_sample_jobs Math_ceil_div_samples)
  from one two show ?thesis by simp
qed

subsection \<open>The two filters commute\<close>

text \<open>
  Claim C9. The query filter and the location filter commute: either order gives the same
  records in the same order, for every \<open>q\<close> and \<open>location\<close> (present and non-empty, or
  not). Both versions of the service.
\<close>

theorem filters_commute_both:
  "location_filter loc (q_filter q js) = q_filter q (location_filter loc js)
   \<and> location_filter loc (q_filter_obj q js') = q_filter_obj q (location_filter loc js')"
  by (simp add: filters_commute filters_commute_obj)

theorem filters_commute_both_witness:
  "q_filter (Some ''BER'') (location_filter (Some ''ber'') (sample_jobs (\<lambda>n. n))) =
     [mk_job ''a'' ''Senior Engineer'' ''TechCorp'' ''Berlin'']
   \<and> q_filter_obj (Some ''BER'') (location_filter (Some ''ber'') (sample_jobs company_named)) =
     [mk_job ''a'' ''Senior Engineer'' (company_named ''TechCorp'') ''Berlin'']"
proof -
  note inst = filters_commute_both
    [of "Some ''ber''" "Some ''BER''" "sample_jobs (\<lambda>n. n)" "sample_jobs company_named"]
  have run: "location_filter (Some ''ber'') (q_filter (Some ''BER'') (sample_jobs (\<lambda>n. n))) =
     [mk_job ''a'' ''Senior Engineer'' ''TechCorp'' ''Berlin'']"
    by code_simp
  have run_obj:
    "location_filter (Some ''ber'') (q_filter_obj (Some ''BER'') (sample_jobs company_named)) =
     [mk_job ''a'' ''Senior Engineer'' (company_named ''TechCorp'') ''Berlin'']"
    by code_simp
  from inst have "location_filter (Some ''ber'') (q_filter (Some ''BER'') (sample_jobs (\<lambda>n. n))) =
      q_filter (Some ''BER'') (location_filter (Some ''ber'') (sample_jobs (\<lambda>n. n)))"
    by (rule conjunct1)
  from this[symmetric] run have first:
    "q_filter (Some ''BER'') (location_filter (Some ''ber'') (sample_jobs (\<lambda>n. n))) =
     [mk_job ''a'' ''Senior Engineer'' ''TechCorp'' ''Berlin'']"
    by (rule trans)
  from inst have
    "location_filter (Some ''ber'') (q_filter_obj (Some ''BER'') (sample_jobs company_named)) =
      q_filter_obj (Some ''BER'') (location_filter (Some ''ber'') (sample_jobs company_named))"
    by (rule conjunct2)
  from this[symmetric] run_obj have second:
    "q_filter_obj (Some ''BER'') (location_filter (Some ''ber'') (sample_jobs company_named)) =
     [mk_job ''a'' ''Senior Engineer'' (company_named ''TechCorp'') ''Berlin'']"
    by (rule trans)
  from first second show ?thesis by (rule conjI)
qed

subsection \<open>Page 0\<close>

text \<open>
  Claim C10. For a limit of at least 1 and page 0 the start index is \<open>- limit\<close> and the end
  index is 0, and the slice of any sequence between them is empty.
  \<^verbatim>\<open>src/services/JobsService.js\<close> then resolves with an empty list of jobs and a pagination
  that carries \<open>page = 0\<close>; the version with company objects does the same unless the
  filtered set is empty.
\<close>

theorem page_zero_window_empty:
  assumes "1 \<le> lmt" and "lmt = default 10 limitArg"
    and "F = applyFilters q loc (load (jobs_json d))"
    and "G = applyFilters_obj q loc (load (job_summaries_json d))"
  shows "(0 - 1) * lmt = - lmt \<and> (0 - 1) * lmt + lmt = 0
       \<and> slice xs ((0 - 1) * lmt) ((0 - 1) * lmt + lmt) = []
       \<and> fst (searchAndListJobs d q loc (Some 0) limitArg) =
           Resolve (successResponse
             \<lparr>jobs = [],
              pagination = \<lparr>total = int (length F), page = 0, limit = lmt,
                              totalPages = Fin \<lceil>real (length F) / real_of_int lmt\<rceil>\<rparr>\<rparr>)
       \<and> fst (searchAndListJobs_obj d q loc (Some 0) limitArg) =
           (if G = [] then Reject (rejectResponse (Obj ''No jobs found'' None) 404)
            else Resolve (successResponse
             \<lparr>jobs = [],
              pagination = \<lparr>total = int (length G), page = 0, limit = lmt,
                              totalPages = Fin \<lceil>real (length G) / real_of_int lmt\<rceil>\<rparr>\<rparr>))"
proof -
  have lmt0: "lmt \<noteq> 0" using assms(1) by simp
  have empty: "slice ys ((0 - 1) * lmt) ((0 - 1) * lmt + lmt) = []" for ys :: "'y list"
    using assms(1) by (simp add: slice_def Let_def)
  have p0: "(0::int) = default 1 (Some 0)" by (simp add: default_def)
  have nonneg: "0 \<le> \<lceil>real (length G) / real_of_int lmt\<rceil>"
    by (rule ceil_nonneg[OF assms(1)])
  have first: "fst (searchAndListJobs d q loc (Some 0) limitArg) =
           Resolve (successResponse
             \<lparr>jobs = [],
              pagination = \<lparr>total = int (length F), page = 0, limit = lmt,
                              totalPages = Fin \<lceil>real (length F) / real_of_int lmt\<rceil>\<rparr>\<rparr>)"
    using searchAndListJobs_result[OF p0 assms(2) assms(3)] assms(1)
    by (simp add: slice_def Let_def Math_ceil_div_Fin[OF lmt0])
  have second: "fst (searchAndListJobs_obj d q loc (Some 0) limitArg) =
           (if G = [] then Reject (rejectResponse (Obj ''No jobs found'' None) 404)
            else Resolve (successResponse
             \<lparr>jobs = [],
              pagination = \<lparr>total = int (length G), page = 0, limit = lmt,
                              totalPages = Fin \<lceil>real (length G) / real_of_int lmt\<rceil>\<rparr>\<rparr>))"
    using searchAndListJobs_obj_result[OF p0 assms(2) assms(4)] assms(1) nonneg
    by (simp add: slice_def Let_def Math_ceil_div_Fin[OF lmt0])
  from empty[of xs] first second show ?thesis by simp
qed

theorem page_zero_window_empty_witness:
  "(1::int) \<le> 2
   \<and> slice ''abc'' (- 2) 0 = []
   \<and> fst (searchAndListJobs sample_dir None None (Some 0) (Some 2)) =
       Resolve (successResponse
         \<lparr>jobs = [], pagination = \<lparr>total = 3, page = 0, limit = 2, totalPages = Fin 2\<rparr>\<rparr>)
   \<and> fst (searchAndListJobs_obj sample_dir None None (Some 0) (Some 2)) =
       Resolve (successResponse
         \<lparr>jobs = [], pagination = \<lparr>total = 3, page = 0, limit = 2, totalPages = Fin 2\<rparr>\<rparr>)"
proof -
  have l: "(1::int) \<le> 2" by simp
  have dl: "(2::int) = default 10 (Some 2)" by (simp add: default_def)
  have F: "sample_jobs (\<lambda>n. n) = applyFilters None None (load (jobs_json sample_dir))"
    by (simp add: applyFilters_absent sample_dir_files)
  have G: "sample_jobs company_named =
             applyFilters_obj None None (load (job_summaries_json sample_dir))"
    by (simp add: applyFilters_absent sample_dir_files)
  have ne: "sample_jobs company_named \<noteq> []"
    using length_sample_jobs[of company_named] by auto
  have c: "\<lceil>real 3 / real_of_int 2\<rceil> = 2" by simp
  note inst = page_zero_window_empty [OF l dl F G, of "''abc''"]
  from inst ne c show ?thesis
    by (simp add: length_sample_jobs)
qed

end
